theory Spec2Isabelle
  imports Complex_Main
begin

section \<open>Common Python notions\<close>

text \<open>
  Exceptions of the Python run time and of the libraries the repository calls are values.
  The repository defines no exception class of its own.
\<close>

datatype error = IndexError | ValueError | ZeroDivisionError | KeyError

text \<open>A calendar date (year, month, day): one entry of a \<open>DatetimeIndex\<close>.\<close>

type_synonym date = "int \<times> int \<times> int"

text \<open>
  Positional indexing \<open>s.iloc[i]\<close>: a negative position counts from the end, a position
  outside the sequence raises \<open>IndexError\<close>.
\<close>

definition iloc :: "'a list \<Rightarrow> int \<Rightarrow> error + 'a" where
  "iloc xs i =
     (if 0 \<le> i \<and> i < int (length xs) then Inr (xs ! nat i)
      else if i < 0 \<and> - int (length xs) \<le> i then Inr (xs ! nat (int (length xs) + i))
      else Inl IndexError)"

section \<open>model.py: the sequence windower \<open>create_sequences\<close>\<close>

text \<open>
  \<^verbatim>\<open>
  def create_sequences(features, target, n_steps):
      X_seq, y_seq = [], []
      for i in range(len(features) - n_steps):
          X_seq.append(features[i:(i + n_steps)])
          y_seq.append(target[i + n_steps])
      return np.array(X_seq), np.array(y_seq)
  \<close>
  \<open>features\<close> and \<open>target\<close> are numpy arrays indexed along their first axis; \<open>n_steps\<close> is
  a window length, a natural number. The loop runs over \<open>range(len(features) - n_steps)\<close>,
  which is empty when the difference is not positive: the truncating subtraction of
  \<open>nat\<close> gives the same range. The slice \<open>features[i:i + n_steps]\<close> is
  \<open>take n_steps (drop i features)\<close>; \<open>target[i + n_steps]\<close> raises \<open>IndexError\<close> beyond the
  end of \<open>target\<close>.
\<close>

fun create_sequences_loop ::
  "'a list \<Rightarrow> 'b list \<Rightarrow> nat \<Rightarrow> nat list \<Rightarrow> 'a list list \<times> 'b list
     \<Rightarrow> error + ('a list list \<times> 'b list)" where
  "create_sequences_loop features target n_steps [] acc = Inr acc"
| "create_sequences_loop features target n_steps (i # rest) acc =
     (if i + n_steps < length target
      then create_sequences_loop features target n_steps rest
             (fst acc @ [take n_steps (drop i features)], snd acc @ [target ! (i + n_steps)])
      else Inl IndexError)"

definition create_sequences ::
  "'a list \<Rightarrow> 'b list \<Rightarrow> nat \<Rightarrow> error + ('a list list \<times> 'b list)" where
  "create_sequences features target n_steps =
     create_sequences_loop features target n_steps [0..<length features - n_steps] ([], [])"

section \<open>model.py: the min-max scalers\<close>

text \<open>
  \<open>MinMaxScaler()\<close> of scikit-learn with its defaults (\<open>feature_range = (0, 1)\<close>,
  \<open>clip = False\<close>), over exact arithmetic. \<open>fit\<close> records per column the minimum and the
  maximum, \<open>scale_ = 1 / handle_zeros(max - min)\<close> where a zero range is replaced by one,
  and \<open>min_ = 0 - min * scale_\<close>; it raises \<open>ValueError\<close> on an array without rows.
  \<open>transform\<close> is \<open>X * scale_ + min_\<close>, \<open>inverse_transform\<close> is \<open>(X - min_) / scale_\<close>.
\<close>

record scaler =
  data_min :: real
  data_max :: real
  scale_attr :: real
  min_attr :: real

definition handle_zeros_in_scale :: "real \<Rightarrow> real" where
  "handle_zeros_in_scale r = (if r = 0 then 1 else r)"

definition minmax_params :: "real \<Rightarrow> real \<Rightarrow> scaler" where
  "minmax_params mn mx =
     (let sc = 1 / handle_zeros_in_scale (mx - mn)
      in \<lparr>data_min = mn, data_max = mx, scale_attr = sc, min_attr = 0 - mn * sc\<rparr>)"

definition fit :: "real list \<Rightarrow> error + scaler" where
  "fit vals =
     (case vals of
        [] \<Rightarrow> Inl ValueError
      | v # vs \<Rightarrow> Inr (minmax_params (fold min vs v) (fold max vs v)))"

definition transform :: "scaler \<Rightarrow> real \<Rightarrow> real" where
  "transform s v = v * scale_attr s + min_attr s"

definition inverse_transform :: "scaler \<Rightarrow> real \<Rightarrow> real" where
  "inverse_transform s v = (v - min_attr s) / scale_attr s"

text \<open>The feature scaler: one column scaler per column of the frame, rows given as lists.\<close>

definition fit_X :: "real list list \<Rightarrow> error + scaler list" where
  "fit_X rows =
     (case rows of
        [] \<Rightarrow> Inl ValueError
      | r # rs \<Rightarrow>
          Inr (map (\<lambda>j. minmax_params (fold min (map (\<lambda>row. row ! j) rs) (r ! j))
                                       (fold max (map (\<lambda>row. row ! j) rs) (r ! j)))
                 [0..<length r]))"

definition transform_X :: "scaler list \<Rightarrow> real list list \<Rightarrow> real list list" where
  "transform_X scs rows = map (\<lambda>row. map (\<lambda>(s, v). transform s v) (zip scs row)) rows"

section \<open>model.py: the trainer \<open>train_and_predict_lstm\<close> / \<open>train_and_predict_gru\<close>\<close>

text \<open>
  The two trainers differ only in the recurrent cell. The network is numeric code of
  PyTorch: its forward pass after training, in evaluation mode, is the parameter \<open>net\<close>,
  a function from a window of scaled feature rows to the scaled prediction. What the
  trainers do around it is modelled as written: the split, the scalers, the windows, the
  places that raise, and the inference loop.

  \<open>data\<close> is the table read back from disk, one \<open>(date, Close)\<close> pair per row (only the
  index and the \<open>Close\<close> column are read here); \<open>X\<close> is the feature frame as a list of
  rows, \<open>y\<close> the target series.
\<close>

record prediction_artifacts =
  predictions :: "real list"
  test_indices :: "date list"
  predict_percentages :: "real list"
  actual_percentages :: "real list"

definition no_artifacts :: prediction_artifacts where
  "no_artifacts =
     \<lparr>predictions = [], test_indices = [], predict_percentages = [], actual_percentages = []\<rparr>"

text \<open>
  \<^verbatim>\<open>
  for i, x_input in enumerate(X_val):
      y_pred = model(x_input_tensor)
      y_pred_value = scaler_y.inverse_transform(y_pred.cpu().numpy())[0][0]
      original_idx = split_idx + n_steps + i
      if original_idx < len(data) and original_idx < len(y):
          predictions.append((1 + y_pred_value) * data['Close'].iloc[original_idx - 1])
          test_indices.append(data.index[original_idx])
          predict_percentages.append(y_pred_value * 100)
          actual_percentages.append(y.iloc[original_idx] * 100)
  \<close>
  Inside the guard \<open>data.index[original_idx]\<close> and \<open>y.iloc[original_idx]\<close> are in range;
  \<open>data['Close'].iloc[original_idx - 1]\<close> goes through \<open>iloc\<close>, since the position is
  \<open>-1\<close> when \<open>original_idx\<close> is zero.
\<close>

fun inference_loop ::
  "(real list list \<Rightarrow> real) \<Rightarrow> scaler \<Rightarrow> (date \<times> real) list \<Rightarrow> real list \<Rightarrow> nat \<Rightarrow> nat
     \<Rightarrow> nat \<Rightarrow> real list list list \<Rightarrow> prediction_artifacts \<Rightarrow> error + prediction_artifacts" where
  "inference_loop net scaler_y data y split_idx n_steps i [] acc = Inr acc"
| "inference_loop net scaler_y data y split_idx n_steps i (x_input # rest) acc =
     (let y_pred_value = inverse_transform scaler_y (net x_input);
          original_idx = split_idx + n_steps + i
      in if original_idx < length data \<and> original_idx < length y
         then (case iloc (map snd data) (int original_idx - 1) of
                 Inl e \<Rightarrow> Inl e
               | Inr prev_close \<Rightarrow>
                   inference_loop net scaler_y data y split_idx n_steps (Suc i) rest
                     \<lparr>predictions = predictions acc @ [(1 + y_pred_value) * prev_close],
                      test_indices = test_indices acc @ [fst (data ! original_idx)],
                      predict_percentages = predict_percentages acc @ [y_pred_value * 100],
                      actual_percentages = actual_percentages acc @ [y ! original_idx * 100]\<rparr>)
         else inference_loop net scaler_y data y split_idx n_steps (Suc i) rest acc)"

text \<open>
  The whole trainer. \<open>int(len(X) * 0.8)\<close> is \<open>\<lfloor>4 * len(X) / 5\<rfloor>\<close>. The places that raise,
  in the order the code reaches them:
  \<^item> \<open>scaler_y.fit\<close>, \<open>scaler_X.fit\<close> and the four \<open>transform\<close> calls raise \<open>ValueError\<close> on
    a slice without rows;
  \<^item> \<open>create_sequences\<close> raises \<open>IndexError\<close> when the target is shorter than the features;
  \<open>DataLoader\<close> raises \<open>ValueError\<close> for a batch size that is not positive;
  \<^item> \<open>X_train.shape[2]\<close> raises \<open>IndexError\<close> when there is no training window, the array
    then having the shape \<open>(0,)\<close>;
  \<^item> in the first epoch \<open>epoch_val_loss / len(val_loader)\<close> raises \<open>ZeroDivisionError\<close> when
    there is no validation window (\<open>len(train_loader)\<close> is positive at that point).
\<close>

definition train_and_predict ::
  "(real list list \<Rightarrow> real) \<Rightarrow> (date \<times> real) list \<Rightarrow> real list list \<Rightarrow> real list
     \<Rightarrow> nat \<Rightarrow> nat \<Rightarrow> nat \<Rightarrow> error + prediction_artifacts" where
  "train_and_predict net data X y n_steps num_epochs batch_size =
     (let split_idx = (4 * length X) div 5;
          X_train_raw = take split_idx X;
          X_val_raw = drop split_idx X;
          y_train_raw = take split_idx y;
          y_val_raw = drop split_idx y
      in case fit y_train_raw of
           Inl e \<Rightarrow> Inl e
         | Inr scaler_y \<Rightarrow>
         (case fit_X X_train_raw of
            Inl e \<Rightarrow> Inl e
          | Inr scaler_X \<Rightarrow>
            if y_val_raw = [] \<or> X_val_raw = [] then Inl ValueError
            else
              let y_train_scaled = map (transform scaler_y) y_train_raw;
                  y_val_scaled = map (transform scaler_y) y_val_raw;
                  X_train_scaled = transform_X scaler_X X_train_raw;
                  X_val_scaled = transform_X scaler_X X_val_raw
              in case create_sequences X_train_scaled y_train_scaled n_steps of
                   Inl e \<Rightarrow> Inl e
                 | Inr train_seq \<Rightarrow>
                 (case create_sequences X_val_scaled y_val_scaled n_steps of
                    Inl e \<Rightarrow> Inl e
                  | Inr val_seq \<Rightarrow>
                    if batch_size = 0 then Inl ValueError
                    else if fst train_seq = [] then Inl IndexError
                    else if 0 < num_epochs \<and> fst val_seq = [] then Inl ZeroDivisionError
                    else inference_loop net scaler_y data y split_idx n_steps 0
                           (fst val_seq) no_artifacts)))"

section \<open>Floating-point values and series\<close>

text \<open>
  A cell of a numeric column: a finite number, an infinity or the missing value \<open>NaN\<close>.
  Arithmetic is exact on finite numbers (rounding and the sign of zero are not
  modelled) and follows IEEE 754 on the special values: \<open>NaN\<close> is absorbing, a non-zero
  number divided by zero is an infinity, \<open>0/0\<close>, \<open>\<infinity> - \<infinity>\<close>, \<open>0 * \<infinity>\<close> and \<open>\<infinity>/\<infinity>\<close> are \<open>NaN\<close>, and
  every comparison with \<open>NaN\<close> is false.
\<close>

datatype fval = Fin real | PInf | NInf | NaN

type_synonym series = "fval list"

fun fneg :: "fval \<Rightarrow> fval" where
  "fneg (Fin a) = Fin (- a)"
| "fneg PInf = NInf"
| "fneg NInf = PInf"
| "fneg NaN = NaN"

fun fadd :: "fval \<Rightarrow> fval \<Rightarrow> fval" where
  "fadd NaN b = NaN"
| "fadd a NaN = NaN"
| "fadd (Fin a) (Fin b) = Fin (a + b)"
| "fadd PInf NInf = NaN"
| "fadd NInf PInf = NaN"
| "fadd PInf b = PInf"
| "fadd a PInf = PInf"
| "fadd NInf b = NInf"
| "fadd a NInf = NInf"

definition fsub :: "fval \<Rightarrow> fval \<Rightarrow> fval" where
  "fsub a b = fadd a (fneg b)"

fun fmul :: "fval \<Rightarrow> fval \<Rightarrow> fval" where
  "fmul NaN b = NaN"
| "fmul a NaN = NaN"
| "fmul (Fin a) (Fin b) = Fin (a * b)"
| "fmul (Fin a) PInf = (if a = 0 then NaN else if 0 < a then PInf else NInf)"
| "fmul (Fin a) NInf = (if a = 0 then NaN else if 0 < a then NInf else PInf)"
| "fmul PInf (Fin b) = (if b = 0 then NaN else if 0 < b then PInf else NInf)"
| "fmul NInf (Fin b) = (if b = 0 then NaN else if 0 < b then NInf else PInf)"
| "fmul PInf PInf = PInf"
| "fmul PInf NInf = NInf"
| "fmul NInf PInf = NInf"
| "fmul NInf NInf = PInf"

fun fdiv :: "fval \<Rightarrow> fval \<Rightarrow> fval" where
  "fdiv NaN b = NaN"
| "fdiv a NaN = NaN"
| "fdiv (Fin a) (Fin b) =
     (if b \<noteq> 0 then Fin (a / b) else if a = 0 then NaN else if 0 < a then PInf else NInf)"
| "fdiv (Fin a) PInf = Fin 0"
| "fdiv (Fin a) NInf = Fin 0"
| "fdiv PInf (Fin b) = (if 0 \<le> b then PInf else NInf)"
| "fdiv NInf (Fin b) = (if 0 \<le> b then NInf else PInf)"
| "fdiv PInf PInf = NaN"
| "fdiv PInf NInf = NaN"
| "fdiv NInf PInf = NaN"
| "fdiv NInf NInf = NaN"

fun fabs :: "fval \<Rightarrow> fval" where
  "fabs (Fin a) = Fin \<bar>a\<bar>"
| "fabs PInf = PInf"
| "fabs NInf = PInf"
| "fabs NaN = NaN"

fun fsqrt :: "fval \<Rightarrow> fval" where
  "fsqrt (Fin a) = (if 0 \<le> a then Fin (sqrt a) else NaN)"
| "fsqrt PInf = PInf"
| "fsqrt NInf = NaN"
| "fsqrt NaN = NaN"

fun fless :: "fval \<Rightarrow> fval \<Rightarrow> bool" where
  "fless NaN b = False"
| "fless a NaN = False"
| "fless (Fin a) (Fin b) = (a < b)"
| "fless a NInf = False"
| "fless NInf b = True"
| "fless PInf b = False"
| "fless a PInf = True"

definition fgreater :: "fval \<Rightarrow> fval \<Rightarrow> bool" where
  "fgreater a b = fless b a"

text \<open>The maximum of two cells that skips a missing one (\<open>max(axis=1)\<close> skips \<open>NaN\<close>).\<close>

definition fmax_skipna :: "fval \<Rightarrow> fval \<Rightarrow> fval" where
  "fmax_skipna a b = (if a = NaN then b else if b = NaN then a else if fless a b then b else a)"

subsection \<open>Element-wise operations on series\<close>

definition series_add :: "series \<Rightarrow> series \<Rightarrow> series" where
  "series_add xs ys = map (\<lambda>(a, b). fadd a b) (zip xs ys)"

definition series_sub :: "series \<Rightarrow> series \<Rightarrow> series" where
  "series_sub xs ys = map (\<lambda>(a, b). fsub a b) (zip xs ys)"

definition series_mul :: "series \<Rightarrow> series \<Rightarrow> series" where
  "series_mul xs ys = map (\<lambda>(a, b). fmul a b) (zip xs ys)"

definition series_div :: "series \<Rightarrow> series \<Rightarrow> series" where
  "series_div xs ys = map (\<lambda>(a, b). fdiv a b) (zip xs ys)"

definition series_abs :: "series \<Rightarrow> series" where
  "series_abs xs = map fabs xs"

definition series_neg :: "series \<Rightarrow> series" where
  "series_neg xs = map fneg xs"

text \<open>\<open>s.clip(lower=0)\<close> and \<open>s.clip(upper=0)\<close>; a missing cell stays missing.\<close>

definition clip_lower :: "fval \<Rightarrow> series \<Rightarrow> series" where
  "clip_lower lo xs = map (\<lambda>v. if fless v lo then lo else v) xs"

definition clip_upper :: "fval \<Rightarrow> series \<Rightarrow> series" where
  "clip_upper hi xs = map (\<lambda>v. if fless hi v then hi else v) xs"

subsection \<open>Operations along the time axis\<close>

text \<open>\<open>s.shift(1)\<close>: every cell moves one row down, the first cell is missing.\<close>

definition shift1 :: "series \<Rightarrow> series" where
  "shift1 xs = take (length xs) (NaN # xs)"

text \<open>\<open>s.diff()\<close> is \<open>s - s.shift(1)\<close>.\<close>

definition diff :: "series \<Rightarrow> series" where
  "diff xs = series_sub xs (shift1 xs)"

text \<open>\<open>s.fillna(method='ffill')\<close>: a missing cell takes the last value seen before it.\<close>

fun ffill_from :: "fval \<Rightarrow> series \<Rightarrow> series" where
  "ffill_from last_seen [] = []"
| "ffill_from last_seen (x # xs) =
     (if x = NaN then last_seen # ffill_from last_seen xs else x # ffill_from x xs)"

definition ffill :: "series \<Rightarrow> series" where
  "ffill xs = ffill_from NaN xs"

text \<open>
  \<open>s.pct_change()\<close> with the default \<open>fill_method='pad'\<close> of the pandas versions that
  accept \<open>fillna(method='ffill')\<close>: pad, then \<open>s / s.shift(1) - 1\<close>.
\<close>

definition pct_change :: "series \<Rightarrow> series" where
  "pct_change xs =
     (let padded = ffill xs
      in map (\<lambda>q. fsub q (Fin 1)) (series_div padded (shift1 padded)))"

text \<open>\<open>s.cumsum()\<close>: the running sum skips missing cells, which stay missing.\<close>

fun cumsum_from :: "fval \<Rightarrow> series \<Rightarrow> series" where
  "cumsum_from acc [] = []"
| "cumsum_from acc (x # xs) =
     (if x = NaN then NaN # cumsum_from acc xs
      else fadd acc x # cumsum_from (fadd acc x) xs)"

definition cumsum :: "series \<Rightarrow> series" where
  "cumsum xs = cumsum_from (Fin 0) xs"

text \<open>
  \<open>s.rolling(window=w)\<close>: the statistic of the \<open>w\<close> cells ending at each row, missing
  while fewer than \<open>w\<close> rows are available or when a cell of the window is missing (the
  arithmetic propagates \<open>NaN\<close>). Each window is evaluated on its own.
\<close>

definition rolling_apply :: "(series \<Rightarrow> fval) \<Rightarrow> nat \<Rightarrow> series \<Rightarrow> series" where
  "rolling_apply stat w xs =
     map (\<lambda>i. if Suc i < w then NaN else stat (take w (drop (Suc i - w) xs))) [0..<length xs]"

definition fsum :: "series \<Rightarrow> fval" where
  "fsum xs = foldl fadd (Fin 0) xs"

definition window_mean :: "series \<Rightarrow> fval" where
  "window_mean xs = fdiv (fsum xs) (Fin (real (length xs)))"

text \<open>The sample standard deviation (\<open>ddof = 1\<close>) of a window.\<close>

definition window_std :: "series \<Rightarrow> fval" where
  "window_std xs =
     (let m = window_mean xs
      in fsqrt (fdiv (fsum (map (\<lambda>x. fmul (fsub x m) (fsub x m)) xs))
                     (Fin (real (length xs) - 1))))"

text \<open>
  The square root is not computed: under evaluation \<open>sqrt\<close> of a number stays as it is.
\<close>

declare root_def [code del]

definition rolling_mean :: "nat \<Rightarrow> series \<Rightarrow> series" where
  "rolling_mean w xs = rolling_apply window_mean w xs"

definition rolling_std :: "nat \<Rightarrow> series \<Rightarrow> series" where
  "rolling_std w xs = rolling_apply window_std w xs"

text \<open>
  \<open>s.ewm(span=n, adjust=False).mean()\<close> with \<open>\<alpha> = 2 / (n + 1)\<close>: the first observation
  starts the average, every later one gives \<open>(1 - \<alpha>) * weighted + \<alpha> * cur\<close>. The weight
  of the old average decays over missing cells (\<open>ignore_na=False\<close>), the average
  itself is carried over them.
\<close>

fun ewm_from :: "real \<Rightarrow> fval \<Rightarrow> real \<Rightarrow> series \<Rightarrow> series" where
  "ewm_from alpha weighted old_wt [] = []"
| "ewm_from alpha weighted old_wt (cur # rest) =
     (if weighted \<noteq> NaN
      then (if cur \<noteq> NaN
            then (let w = (if weighted \<noteq> cur
                           then fdiv (fadd (fmul (Fin (old_wt * (1 - alpha))) weighted)
                                           (fmul (Fin alpha) cur))
                                     (Fin (old_wt * (1 - alpha) + alpha))
                           else weighted)
                  in w # ewm_from alpha w 1 rest)
            else weighted # ewm_from alpha weighted (old_wt * (1 - alpha)) rest)
      else cur # ewm_from alpha cur old_wt rest)"

definition ewm_mean :: "nat \<Rightarrow> series \<Rightarrow> series" where
  "ewm_mean n xs = ewm_from (2 / (real n + 1)) NaN 1 xs"

section \<open>Data frames\<close>

text \<open>
  A \<open>DataFrame\<close>: a date index and named columns in their order. Every column of a frame
  has as many cells as the index has dates (\<open>wf_frame\<close>).
\<close>

record frame =
  index :: "date list"
  columns :: "(string \<times> series) list"

definition wf_frame :: "frame \<Rightarrow> bool" where
  "wf_frame df = (\<forall>c \<in> set (columns df). length (snd c) = length (index df))"

definition empty_frame :: frame where
  "empty_frame = \<lparr>index = [], columns = []\<rparr>"

text \<open>\<open>df.empty\<close>: one of the two axes has length zero.\<close>

definition df_empty :: "frame \<Rightarrow> bool" where
  "df_empty df = (index df = [] \<or> columns df = [])"

definition has_col :: "frame \<Rightarrow> string \<Rightarrow> bool" where
  "has_col df name = (name \<in> set (map fst (columns df)))"

text \<open>
  \<open>df[name]\<close> for a column that is present; the code reads a column only after it has
  made sure, or made, that it exists.
\<close>

definition col :: "frame \<Rightarrow> string \<Rightarrow> series" where
  "col df name = (case map_of (columns df) name of Some s \<Rightarrow> s | None \<Rightarrow> [])"

text \<open>\<open>df[name] = s\<close>: replaces the column in place, or appends a new last column.\<close>

definition set_col :: "frame \<Rightarrow> string \<Rightarrow> series \<Rightarrow> frame" where
  "set_col df name s =
     df\<lparr>columns :=
          (if has_col df name
           then map (\<lambda>c. if fst c = name then (name, s) else c) (columns df)
           else columns df @ [(name, s)])\<rparr>"

text \<open>
  \<open>df.loc[mask, names] = np.nan\<close>: the cells of the named columns in the rows of the mask
  become missing. A named column that does not exist is added, all cells missing.
\<close>

definition mask_nan :: "bool list \<Rightarrow> series \<Rightarrow> series" where
  "mask_nan sel s = map (\<lambda>(m, v). if m then NaN else v) (zip sel s)"

definition loc_set_nan :: "bool list \<Rightarrow> string list \<Rightarrow> frame \<Rightarrow> frame" where
  "loc_set_nan sel names df =
     fold (\<lambda>name d. set_col d name
                       (if has_col d name then mask_nan sel (col d name)
                        else replicate (length (index d)) NaN))
          names df"

text \<open>\<open>df.fillna(method='ffill')\<close>: every column is forward-filled.\<close>

definition ffill_frame :: "frame \<Rightarrow> frame" where
  "ffill_frame df = df\<lparr>columns := map (\<lambda>c. (fst c, ffill (snd c))) (columns df)\<rparr>"

text \<open>\<open>df.dropna()\<close>: the rows without a missing cell, in their order.\<close>

definition complete_row :: "frame \<Rightarrow> nat \<Rightarrow> bool" where
  "complete_row df i = (\<forall>c \<in> set (columns df). snd c ! i \<noteq> NaN)"

definition dropna :: "frame \<Rightarrow> frame" where
  "dropna df =
     (let keep = filter (complete_row df) [0..<length (index df)]
      in \<lparr>index = map (\<lambda>i. index df ! i) keep,
          columns = map (\<lambda>c. (fst c, map (\<lambda>i. snd c ! i) keep)) (columns df)\<rparr>)"


section \<open>process_stock_data.py: the indicator series\<close>

text \<open>
  Each indicator of \<open>compute_indicators\<close> as a function of the price and volume series
  it reads, in the order of the source.
  \<^verbatim>\<open>
  df_stock['MA5'] = df_stock['Close'].shift(1).rolling(window=5).mean()
  \<close>
\<close>

definition sma :: "nat \<Rightarrow> series \<Rightarrow> series" where
  "sma w close = rolling_mean w (shift1 close)"

text \<open>
  \<^verbatim>\<open>
  price_change = df_stock['Close'].diff()
  rise = price_change.clip(lower=0)
  drop = -price_change.clip(upper=0)
  mean_rise = rise.rolling(window=14).mean()
  mean_drop = drop.rolling(window=14).mean()
  rs_value = mean_rise / mean_drop
  df_stock['RSI'] = (100 - (100 / (1 + rs_value))).shift(1)
  \<close>
\<close>

definition rsi_series :: "series \<Rightarrow> series" where
  "rsi_series close =
     (let price_change = diff close;
          rise = clip_lower (Fin 0) price_change;
          fall = series_neg (clip_upper (Fin 0) price_change);
          mean_rise = rolling_mean 14 rise;
          mean_drop = rolling_mean 14 fall;
          rs_value = series_div mean_rise mean_drop
      in shift1 (map (\<lambda>rs. fsub (Fin 100) (fdiv (Fin 100) (fadd (Fin 1) rs))) rs_value))"

text \<open>
  \<^verbatim>\<open>
  ema_short = df_stock['Close'].ewm(span=12, adjust=False).mean()
  ema_long = df_stock['Close'].ewm(span=26, adjust=False).mean()
  df_stock['MACD'] = (ema_short - ema_long).shift(1)
  \<close>
\<close>

definition macd_series :: "series \<Rightarrow> series" where
  "macd_series close =
     (let ema_short = ewm_mean 12 close;
          ema_long = ewm_mean 26 close
      in shift1 (series_sub ema_short ema_long))"

text \<open>
  \<^verbatim>\<open>
  df_stock['VWAP'] = ((df_stock['Close'] * df_stock['Volume']).cumsum()
                      / df_stock['Volume'].cumsum()).shift(1)
  \<close>
\<close>

definition vwap_series :: "series \<Rightarrow> series \<Rightarrow> series" where
  "vwap_series close volume =
     shift1 (series_div (cumsum (series_mul close volume)) (cumsum volume))"

text \<open>
  \<^verbatim>\<open>
  window_size = 20
  sma = df_stock['Close'].rolling(window=window_size).mean()
  std_dev = df_stock['Close'].rolling(window=window_size).std()
  df_stock['Upper_band'] = (sma + 2 * std_dev).shift(1)
  df_stock['Lower_band'] = (sma - 2 * std_dev).shift(1)
  \<close>
\<close>

definition upper_band_series :: "series \<Rightarrow> series" where
  "upper_band_series close =
     (let window_size = 20;
          mid = rolling_mean window_size close;
          std_dev = rolling_std window_size close
      in shift1 (series_add mid (map (fmul (Fin 2)) std_dev)))"

definition lower_band_series :: "series \<Rightarrow> series" where
  "lower_band_series close =
     (let window_size = 20;
          mid = rolling_mean window_size close;
          std_dev = rolling_std window_size close
      in shift1 (series_sub mid (map (fmul (Fin 2)) std_dev)))"

text \<open>
  \<^verbatim>\<open>
  obv = [0]
  for i in range(1, len(df_stock)):
      if df_stock['Close'].iloc[i] > df_stock['Close'].iloc[i - 1]:
          obv.append(obv[-1] + df_stock['Volume'].iloc[i])
      elif df_stock['Close'].iloc[i] < df_stock['Close'].iloc[i - 1]:
          obv.append(obv[-1] - df_stock['Volume'].iloc[i])
      else:
          obv.append(obv[-1])
  df_stock['OBV'] = pd.Series(obv, index=df_stock.index).shift(1)
  \<close>
  The positions \<open>i\<close> and \<open>i - 1\<close> are rows of the frame, \<open>1 \<le> i < len(df_stock)\<close>.
\<close>

fun obv_loop :: "series \<Rightarrow> series \<Rightarrow> nat list \<Rightarrow> series \<Rightarrow> series" where
  "obv_loop close volume [] obv = obv"
| "obv_loop close volume (i # rest) obv =
     obv_loop close volume rest
       (if fgreater (close ! i) (close ! (i - 1)) then obv @ [fadd (last obv) (volume ! i)]
        else if fless (close ! i) (close ! (i - 1)) then obv @ [fsub (last obv) (volume ! i)]
        else obv @ [last obv])"

definition obv_series :: "nat \<Rightarrow> series \<Rightarrow> series \<Rightarrow> series" where
  "obv_series len_df close volume = shift1 (obv_loop close volume [1..<len_df] [Fin 0])"

text \<open>
  \<^verbatim>\<open>
  plus_dm = high.diff()
  minus_dm = low.diff().abs()
  tr1 = high - low
  tr2 = abs(high - close.shift())
  tr3 = abs(low - close.shift())
  tr = pd.concat([tr1, tr2, tr3], axis=1).max(axis=1)
  atr = tr.rolling(window=14).mean()
  plus_di_intermediate = 100 * (plus_dm.rolling(window=14).mean() / atr)
  minus_di_intermediate = 100 * (minus_dm.rolling(window=14).mean() / atr)
  adx_intermediate = (abs(plus_di_intermediate - minus_di_intermediate)
      / (plus_di_intermediate + minus_di_intermediate)).rolling(window=14).mean() * 100
  \<close>
\<close>

definition true_range :: "series \<Rightarrow> series \<Rightarrow> series \<Rightarrow> series" where
  "true_range high low close =
     (let tr1 = series_sub high low;
          tr2 = series_abs (series_sub high (shift1 close));
          tr3 = series_abs (series_sub low (shift1 close))
      in map (\<lambda>(a, b, c). fmax_skipna (fmax_skipna a b) c) (zip tr1 (zip tr2 tr3)))"

definition atr :: "series \<Rightarrow> series \<Rightarrow> series \<Rightarrow> series" where
  "atr high low close = rolling_mean 14 (true_range high low close)"

definition plus_di_intermediate :: "series \<Rightarrow> series \<Rightarrow> series \<Rightarrow> series" where
  "plus_di_intermediate high low close =
     (let plus_dm = diff high
      in map (fmul (Fin 100)) (series_div (rolling_mean 14 plus_dm) (atr high low close)))"

definition minus_di_intermediate :: "series \<Rightarrow> series \<Rightarrow> series \<Rightarrow> series" where
  "minus_di_intermediate high low close =
     (let minus_dm = series_abs (diff low)
      in map (fmul (Fin 100)) (series_div (rolling_mean 14 minus_dm) (atr high low close)))"

definition adx_intermediate :: "series \<Rightarrow> series \<Rightarrow> series \<Rightarrow> series" where
  "adx_intermediate high low close =
     (let pdi = plus_di_intermediate high low close;
          mdi = minus_di_intermediate high low close
      in map (\<lambda>v. fmul v (Fin 100))
           (rolling_mean 14 (series_div (series_abs (series_sub pdi mdi)) (series_add pdi mdi))))"

section \<open>process_stock_data.py: \<open>compute_indicators\<close>\<close>

text \<open>
  \<^verbatim>\<open>
  change = df_stock['Close'].pct_change()
  df_stock.loc[change.abs() > 0.3, ['Open', 'High', 'Low', 'Close', 'Volume']] = np.nan
  df_stock.fillna(method='ffill', inplace=True)
  \<close>
\<close>

definition ohlcv :: "string list" where
  "ohlcv = [''Open'', ''High'', ''Low'', ''Close'', ''Volume'']"

definition outlier_mask :: "series \<Rightarrow> bool list" where
  "outlier_mask close = map (\<lambda>c. fgreater (fabs c) (Fin (3 / 10))) (pct_change close)"

definition clean_outliers :: "frame \<Rightarrow> frame" where
  "clean_outliers df =
     (let change_mask = outlier_mask (col df ''Close'')
      in ffill_frame (loc_set_nan change_mask ohlcv df))"

text \<open>The calendar columns: year, month and day of the index.\<close>

definition add_time_features :: "frame \<Rightarrow> frame" where
  "add_time_features df0 =
     (let df1 = set_col df0 ''Year'' (map (\<lambda>d. Fin (real_of_int (fst d))) (index df0));
          df2 = set_col df1 ''Month'' (map (\<lambda>d. Fin (real_of_int (fst (snd d)))) (index df1));
          df3 = set_col df2 ''Day'' (map (\<lambda>d. Fin (real_of_int (snd (snd d)))) (index df2))
      in df3)"

definition add_moving_averages :: "frame \<Rightarrow> frame" where
  "add_moving_averages df0 =
     (let df1 = set_col df0 ''MA5'' (sma 5 (col df0 ''Close''));
          df2 = set_col df1 ''MA10'' (sma 10 (col df1 ''Close''));
          df3 = set_col df2 ''MA20'' (sma 20 (col df2 ''Close''));
          df4 = set_col df3 ''MA50'' (sma 50 (col df3 ''Close''))
      in df4)"

definition add_oscillators :: "frame \<Rightarrow> frame" where
  "add_oscillators df0 =
     (let df1 = set_col df0 ''RSI'' (rsi_series (col df0 ''Close''));
          df2 = set_col df1 ''MACD'' (macd_series (col df1 ''Close''));
          df3 = set_col df2 ''VWAP'' (vwap_series (col df2 ''Close'') (col df2 ''Volume''));
          df4 = set_col df3 ''Upper_band'' (upper_band_series (col df3 ''Close''));
          df5 = set_col df4 ''Lower_band'' (lower_band_series (col df4 ''Close''));
          df6 = set_col df5 ''OBV''
                  (obv_series (length (index df5)) (col df5 ''Close'') (col df5 ''Volume''))
      in df6)"

definition add_directional :: "frame \<Rightarrow> frame" where
  "add_directional df0 =
     (let high = col df0 ''High'';
          low = col df0 ''Low'';
          close = col df0 ''Close'';
          df1 = set_col df0 ''+DI'' (shift1 (plus_di_intermediate high low close));
          df2 = set_col df1 ''-DI'' (shift1 (minus_di_intermediate high low close));
          df3 = set_col df2 ''ADX'' (shift1 (adx_intermediate high low close));
          df4 = set_col df3 ''ATR'' (shift1 (atr high low close))
      in df4)"

definition add_previous_day :: "frame \<Rightarrow> frame" where
  "add_previous_day df0 =
     (let df1 = set_col df0 ''Open_yes'' (shift1 (col df0 ''Open''));
          df2 = set_col df1 ''High_yes'' (shift1 (col df1 ''High''));
          df3 = set_col df2 ''Low_yes'' (shift1 (col df2 ''Low''));
          df4 = set_col df3 ''Close_yes'' (shift1 (col df3 ''Close''));
          df5 = set_col df4 ''Volume_yes'' (shift1 (col df4 ''Volume''));
          df6 = set_col df5 ''Prev_Close'' (shift1 (col df5 ''Close''))
      in df6)"

definition add_indicators :: "frame \<Rightarrow> frame" where
  "add_indicators df =
     add_previous_day (add_directional (add_oscillators (add_moving_averages
       (add_time_features df))))"




text \<open>
  The function itself. The index is a \<open>DatetimeIndex\<close> already. Every assignment up to
  the last line works on the frame object of the caller (\<open>.loc[...] = \<close>,
  \<open>fillna(..., inplace=True)\<close>, \<open>df_stock[...] = \<close>); only \<open>df_stock = df_stock.dropna()\<close>
  makes a new frame, which is returned. The result is the pair of the returned frame and
  of the caller's frame after the call.
  \<^verbatim>\<open>
  if df_stock.empty or 'Close' not in df_stock.columns:
      print(...)
      return pd.DataFrame()
  ...
  df_stock = df_stock.dropna()
  return df_stock
  \<close>
\<close>

definition compute_indicators :: "frame \<Rightarrow> frame \<times> frame" where
  "compute_indicators df_stock =
     (if df_empty df_stock \<or> \<not> has_col df_stock ''Close'' then (empty_frame, df_stock)
      else
        let df = add_indicators (clean_outliers df_stock)
        in (dropna df, df))"

text \<open>
  The caller \<open>process_all\<close> looks at a result only through \<open>df_result.empty\<close>: an empty
  result is reported as "no data or processing failed" and nothing is written.
\<close>

datatype outcome = No_data | Saved frame

definition process_one :: "frame \<Rightarrow> outcome" where
  "process_one df_raw =
     (let df_result = fst (compute_indicators df_raw)
      in if df_empty df_result then No_data else Saved df_result)"

section \<open>model.py: \<open>format_feature\<close>\<close>






section \<open>A small table for concrete runs\<close>

text \<open>
  Eleven rows of closes, the target \<open>pct_change\<close> of the closes with the first row dropped,
  and a feature frame of one column (the previous close) with the first row dropped.
\<close>

definition example_closes :: "real list" where
  "example_closes = [100, 200, 200, 200, 200, 200, 200, 200, 200, 220, 264]"

definition example_data :: "(date \<times> real) list" where
  "example_data = map (\<lambda>i. ((2024, 1, int i + 1), example_closes ! i)) [0..<11]"

definition example_X :: "real list list" where
  "example_X = map (\<lambda>i. [example_closes ! i]) [0..<10]"

definition example_y :: "real list" where
  "example_y =
     map (\<lambda>j. (example_closes ! Suc j - example_closes ! j) / example_closes ! j) [0..<10]"



section \<open>Properties of the windower\<close>

lemma create_sequences_loop_ok:
  assumes "\<forall>i \<in> set is. i + n < length target"
  shows "create_sequences_loop features target n is acc =
           Inr (fst acc @ map (\<lambda>i. take n (drop i features)) is,
                snd acc @ map (\<lambda>i. target ! (i + n)) is)"
  using assms by (induction "is" arbitrary: acc) simp_all

lemma create_sequences_aligned:
  assumes "length target = length features"
  shows "create_sequences features target n =
           Inr (map (\<lambda>i. take n (drop i features)) [0..<length features - n],
                map (\<lambda>i. target ! (i + n)) [0..<length features - n])"
proof -
  have "\<forall>i \<in> set [0..<length features - n]. i + n < length target"
    using assms by auto
  then show ?thesis
    unfolding create_sequences_def by (simp add: create_sequences_loop_ok)
qed

lemma window_rows:
  assumes "i + n \<le> length features"
  shows "take n (drop i features) = map (\<lambda>j. features ! (i + j)) [0..<n]"
proof (rule nth_equalityI)
  show "length (take n (drop i features)) = length (map (\<lambda>j. features ! (i + j)) [0..<n])"
    using assms by simp
next
  fix j assume "j < length (take n (drop i features))"
  then have "j < n" by simp
  then show "take n (drop i features) ! j = map (\<lambda>j. features ! (i + j)) [0..<n] ! j"
    using assms by simp
qed

text \<open>
  C3. Applied to features of length \<open>L\<close> and a target of the same length, the windower
  returns normally; it yields \<open>L - n_steps\<close> windows (none when \<open>n_steps \<ge> L\<close>), and for every
  start index \<open>i < L - n_steps\<close> the window \<open>i\<close> consists of the \<open>n_steps\<close> consecutive feature
  rows \<open>i, \<dots>, i + n_steps - 1\<close> and is paired with the target at \<open>i + n_steps\<close>.
\<close>

theorem create_sequences_windows:
  assumes "length target = length features"
  shows "\<exists>X_seq y_seq.
           create_sequences features target n_steps = Inr (X_seq, y_seq)
         \<and> int (length X_seq) = max 0 (int (length features) - int n_steps)
         \<and> length y_seq = length X_seq
         \<and> (n_steps < length features \<longrightarrow> length X_seq = length features - n_steps)
         \<and> (length features \<le> n_steps \<longrightarrow> X_seq = [] \<and> y_seq = [])
         \<and> (\<forall>i < length features - n_steps.
               X_seq ! i = map (\<lambda>j. features ! (i + j)) [0..<n_steps]
             \<and> y_seq ! i = target ! (i + n_steps))"
proof -
  let ?X = "map (\<lambda>i. take n_steps (drop i features)) [0..<length features - n_steps]"
  let ?y = "map (\<lambda>i. target ! (i + n_steps)) [0..<length features - n_steps]"
  have run: "create_sequences features target n_steps = Inr (?X, ?y)"
    by (rule create_sequences_aligned [OF assms])
  have rows: "\<forall>i < length features - n_steps.
                ?X ! i = map (\<lambda>j. features ! (i + j)) [0..<n_steps]
              \<and> ?y ! i = target ! (i + n_steps)"
    by (simp add: window_rows)
  have len: "int (length ?X) = max 0 (int (length features) - int n_steps)"
    by simp
  show ?thesis
    using run rows len by (intro exI [of _ ?X] exI [of _ ?y]) simp
qed

theorem create_sequences_windows_witness:
  "length [10, 20, 30 :: real] = length [[1], [2], [3 :: real]]
   \<and> (\<exists>X_seq y_seq.
        create_sequences [[1], [2], [3 :: real]] [10, 20, 30 :: real] 2 = Inr (X_seq, y_seq)
      \<and> length X_seq = 1 \<and> X_seq ! 0 = [[1], [2]] \<and> y_seq ! 0 = 30)"
proof -
  have h: "length [10, 20, 30 :: real] = length [[1], [2], [3 :: real]]" by simp
  from create_sequences_windows [OF h, of 2]
  obtain X_seq y_seq where
    r: "create_sequences [[1], [2], [3 :: real]] [10, 20, 30 :: real] 2 = Inr (X_seq, y_seq)"
    and l: "2 < length [[1], [2], [3 :: real]] \<longrightarrow> length X_seq = length [[1], [2], [3 :: real]] - 2"
    and w: "\<forall>i < length [[1], [2], [3 :: real]] - 2.
              X_seq ! i = map (\<lambda>j. [[1], [2], [3 :: real]] ! (i + j)) [0..<2]
            \<and> y_seq ! i = [10, 20, 30 :: real] ! (i + 2)"
    by blast
  from l have l1: "length X_seq = 1" by simp
  from w have "X_seq ! 0 = map (\<lambda>j. [[1], [2], [3 :: real]] ! (0 + j)) [0..<2]
             \<and> y_seq ! 0 = [10, 20, 30 :: real] ! (0 + 2)" by simp
  then have w0: "X_seq ! 0 = [[1], [2]] \<and> y_seq ! 0 = 30"
    by (simp add: upt_rec)
  show ?thesis using h r l1 w0 by blast
qed

section \<open>Properties of the scalers\<close>






section \<open>Properties of the trainer\<close>

lemma iloc_prev:
  assumes "k < length xs"
  shows "iloc xs (int k - 1) = Inr (if k = 0 then xs ! (length xs - 1) else xs ! (k - 1))"
proof (cases k)
  case 0
  from assms have n: "1 \<le> int (length xs)" by simp
  have "nat (int (length xs) + (- 1)) = length xs - 1" by simp
  with 0 n show ?thesis by (simp add: iloc_def)
next
  case (Suc j)
  then show ?thesis using assms by (simp add: iloc_def)
qed

lemma inference_loop_emit:
  assumes "split_idx + n_steps + i < length data" "split_idx + n_steps + i < length y"
    and "iloc (map snd data) (int (split_idx + n_steps + i) - 1) = Inr prev_close"
  shows "inference_loop net sc data y split_idx n_steps i (w # ws) acc =
           inference_loop net sc data y split_idx n_steps (Suc i) ws
             \<lparr>predictions = predictions acc @ [(1 + inverse_transform sc (net w)) * prev_close],
              test_indices = test_indices acc @ [fst (data ! (split_idx + n_steps + i))],
              predict_percentages = predict_percentages acc @ [inverse_transform sc (net w) * 100],
              actual_percentages = actual_percentages acc @ [y ! (split_idx + n_steps + i) * 100]\<rparr>"
  using assms by (simp add: Let_def)

lemma inference_loop_all_emitted:
  assumes "\<forall>j < length ws. split_idx + n_steps + i + j < length y" "length y \<le> length data"
  shows "\<exists>r. inference_loop net sc data y split_idx n_steps i ws acc = Inr r
           \<and> length (predictions r) = length (predictions acc) + length ws
           \<and> length (test_indices r) = length (test_indices acc) + length ws
           \<and> length (predict_percentages r) = length (predict_percentages acc) + length ws
           \<and> length (actual_percentages r) = length (actual_percentages acc) + length ws"
  using assms
proof (induction ws arbitrary: i acc)
  case Nil
  then show ?case by simp
next
  case (Cons w ws)
  let ?o = "split_idx + n_steps + i"
  have g: "?o < length data" "?o < length y" using Cons.prems by fastforce+
  from g(1) have "?o < length (map snd data)" by simp
  from iloc_prev [OF this] obtain p where il: "iloc (map snd data) (int ?o - 1) = Inr p"
    by blast
  note step = inference_loop_emit [OF g il, of net sc w ws acc]
  have "\<forall>j < length ws. split_idx + n_steps + Suc i + j < length y"
  proof (intro allI impI)
    fix j assume "j < length ws"
    then have "Suc j < length (w # ws)" by simp
    with Cons.prems(1) have "split_idx + n_steps + i + Suc j < length y" by blast
    then show "split_idx + n_steps + Suc i + j < length y" by simp
  qed
  from Cons.IH [OF this Cons.prems(2)] obtain r where
    "inference_loop net sc data y split_idx n_steps (Suc i) ws
       \<lparr>predictions = predictions acc @ [(1 + inverse_transform sc (net w)) * p],
        test_indices = test_indices acc @ [fst (data ! (split_idx + n_steps + i))],
        predict_percentages = predict_percentages acc @ [inverse_transform sc (net w) * 100],
        actual_percentages = actual_percentages acc @ [y ! (split_idx + n_steps + i) * 100]\<rparr>
     = Inr r"
    "length (predictions r) = Suc (length (predictions acc)) + length ws"
    "length (test_indices r) = Suc (length (test_indices acc)) + length ws"
    "length (predict_percentages r) = Suc (length (predict_percentages acc)) + length ws"
    "length (actual_percentages r) = Suc (length (actual_percentages acc)) + length ws"
    by fastforce
  then show ?case unfolding step by simp
qed

lemma create_sequences_loop_Inr:
  assumes "create_sequences_loop features target n is acc = Inr p"
  shows "p = (fst acc @ map (\<lambda>i. take n (drop i features)) is,
              snd acc @ map (\<lambda>i. target ! (i + n)) is)"
  using assms
proof (induction "is" arbitrary: acc)
  case Nil
  then show ?case by simp
next
  case (Cons i rest)
  from Cons.prems have g: "i + n < length target"
    by (simp split: if_splits)
  with Cons.prems have
    "create_sequences_loop features target n rest
       (fst acc @ [take n (drop i features)], snd acc @ [target ! (i + n)]) = Inr p"
    by simp
  from Cons.IH [OF this] show ?case by simp
qed

lemma create_sequences_Inr:
  assumes "create_sequences features target n = Inr p"
  shows "fst p = map (\<lambda>i. take n (drop i features)) [0..<length features - n]"
  using create_sequences_loop_Inr [OF assms [unfolded create_sequences_def]] by simp

lemma length_transform_X: "length (transform_X scs rows) = length rows"
  by (simp add: transform_X_def)

text \<open>
  C10. When \<open>X\<close> and \<open>y\<close> have the same length and \<open>data\<close> has one row more (as
  \<open>format_feature\<close> produces them), the guard of the inference loop holds at every
  validation window index, so no window is skipped: a run that returns has emitted
  exactly \<open>max 0 (len(X) - split_idx - n_steps)\<close> records and its four result sequences
  have that length. The run does return whenever there is a training window, the batch
  size is positive and either no epoch is run or there is a validation window.
\<close>

theorem inference_emits_every_window:
  assumes "length y = length X" "length data = length X + 1"
  shows "(\<forall>i < length X - (4 * length X) div 5 - n_steps.
            (4 * length X) div 5 + n_steps + i < length data
          \<and> (4 * length X) div 5 + n_steps + i < length y)
       \<and> (\<forall>r. train_and_predict net data X y n_steps num_epochs batch_size = Inr r \<longrightarrow>
              int (length (predictions r))
                = max 0 (int (length X) - int ((4 * length X) div 5) - int n_steps)
            \<and> length (test_indices r) = length (predictions r)
            \<and> length (predict_percentages r) = length (predictions r)
            \<and> length (actual_percentages r) = length (predictions r))
       \<and> (n_steps < (4 * length X) div 5 \<and> 0 < batch_size
            \<and> (num_epochs = 0 \<or> n_steps < length X - (4 * length X) div 5) \<longrightarrow>
            (\<exists>r. train_and_predict net data X y n_steps num_epochs batch_size = Inr r))"
proof -
  let ?k = "(4 * length X) div 5"
  have guard: "\<forall>i < length X - ?k - n_steps.
                 ?k + n_steps + i < length data \<and> ?k + n_steps + i < length y"
    using assms by auto
  have loop: "\<exists>r. inference_loop net sc data y ?k n_steps 0
                     (map (\<lambda>i. take n_steps (drop i F)) [0..<length X - ?k - n_steps])
                     no_artifacts = Inr r
               \<and> length (predictions r) = length X - ?k - n_steps
               \<and> length (test_indices r) = length X - ?k - n_steps
               \<and> length (predict_percentages r) = length X - ?k - n_steps
               \<and> length (actual_percentages r) = length X - ?k - n_steps" for sc F
  proof -
    have a: "\<forall>j < length (map (\<lambda>i. take n_steps (drop i F)) [0..<length X - ?k - n_steps]).
               ?k + n_steps + 0 + j < length y"
      using assms by auto
    have b: "length y \<le> length data" using assms by simp
    from inference_loop_all_emitted [OF a b, of net sc no_artifacts]
    show ?thesis by (simp add: no_artifacts_def)
  qed
  have ret: "int (length (predictions r)) = max 0 (int (length X) - int ?k - int n_steps)
           \<and> length (test_indices r) = length (predictions r)
           \<and> length (predict_percentages r) = length (predictions r)
           \<and> length (actual_percentages r) = length (predictions r)"
    if run: "train_and_predict net data X y n_steps num_epochs batch_size = Inr r" for r
  proof -
    from run obtain sc scs tr vs where
      vs: "create_sequences (transform_X scs (drop ?k X)) (map (transform sc) (drop ?k y)) n_steps
             = Inr vs"
      and r: "inference_loop net sc data y ?k n_steps 0 (fst vs) no_artifacts = Inr r"
      unfolding train_and_predict_def Let_def
      by (auto split: sum.splits if_splits)
    from create_sequences_Inr [OF vs]
    have "fst vs = map (\<lambda>i. take n_steps (drop i (transform_X scs (drop ?k X))))
                     [0..<length X - ?k - n_steps]"
      by (simp add: length_transform_X)
    with r loop [of sc "transform_X scs (drop ?k X)"] show ?thesis
      by auto
  qed
  have ok: "\<exists>r. train_and_predict net data X y n_steps num_epochs batch_size = Inr r"
    if c: "n_steps < ?k \<and> 0 < batch_size \<and> (num_epochs = 0 \<or> n_steps < length X - ?k)"
  proof -
    from c have c2: "num_epochs = 0 \<or> \<not> length X \<le> ?k + n_steps" by arith
    from c have kpos: "0 < ?k" by simp
    then have xpos: "0 < length X" by (cases "length X") simp_all
    have klt: "?k < length X" using xpos by arith
    obtain sc where sc: "fit (take ?k y) = Inr sc"
      using kpos assms klt by (cases "take ?k y") (auto simp: fit_def)
    obtain scs where scs: "fit_X (take ?k X) = Inr scs"
      using kpos klt by (cases "take ?k X") (auto simp: fit_X_def)
    have ne: "drop ?k y \<noteq> []" "drop ?k X \<noteq> []" using klt assms by simp_all
    have tr: "create_sequences (transform_X scs (take ?k X)) (map (transform sc) (take ?k y))
                n_steps
              = Inr (map (\<lambda>i. take n_steps (drop i (transform_X scs (take ?k X))))
                       [0..<length (transform_X scs (take ?k X)) - n_steps],
                     map (\<lambda>i. map (transform sc) (take ?k y) ! (i + n_steps))
                       [0..<length (transform_X scs (take ?k X)) - n_steps])"
      by (rule create_sequences_aligned) (simp add: length_transform_X assms)
    have va: "create_sequences (transform_X scs (drop ?k X)) (map (transform sc) (drop ?k y))
                n_steps
              = Inr (map (\<lambda>i. take n_steps (drop i (transform_X scs (drop ?k X))))
                       [0..<length (transform_X scs (drop ?k X)) - n_steps],
                     map (\<lambda>i. map (transform sc) (drop ?k y) ! (i + n_steps))
                       [0..<length (transform_X scs (drop ?k X)) - n_steps])"
      by (rule create_sequences_aligned) (simp add: length_transform_X assms)
    have trne: "length (transform_X scs (take ?k X)) - n_steps \<noteq> 0"
      using c klt by (simp add: length_transform_X)
    have len: "length (transform_X scs (drop ?k X)) - n_steps = length X - ?k - n_steps"
      by (simp add: length_transform_X)
    from loop [of sc "transform_X scs (drop ?k X)"] obtain r where
      "inference_loop net sc data y ?k n_steps 0
         (map (\<lambda>i. take n_steps (drop i (transform_X scs (drop ?k X))))
            [0..<length X - ?k - n_steps]) no_artifacts = Inr r"
      by blast
    then have "train_and_predict net data X y n_steps num_epochs batch_size = Inr r"
      unfolding train_and_predict_def Let_def
      using sc scs ne tr va trne c c2 by (simp add: len)
    then show ?thesis by blast
  qed
  show ?thesis using guard ret ok by blast
qed


text \<open>The theorem at a table of eleven rows, ten feature rows and windows of one step.\<close>

theorem inference_emits_every_window_witness:
  "length example_y = length example_X \<and> length example_data = length example_X + 1
   \<and> (\<exists>r. train_and_predict (\<lambda>w. 1 / 20) example_data example_X example_y 1 1 64 = Inr r
          \<and> length (predictions r) = 1 \<and> length (test_indices r) = 1
          \<and> length (predict_percentages r) = 1 \<and> length (actual_percentages r) = 1)"
proof -
  have h1: "length example_y = length example_X"
    by (simp add: example_y_def example_X_def)
  have h2: "length example_data = length example_X + 1"
    by (simp add: example_data_def example_X_def)
  have k: "(4 * length example_X) div 5 = 8" by (simp add: example_X_def)
  have lx: "length example_X = 10" by (simp add: example_X_def)
  note t = inference_emits_every_window [OF h1 h2, of 1 "\<lambda>w. 1 / 20" 1 64]
  from t have "\<exists>r. train_and_predict (\<lambda>w. 1 / 20) example_data example_X example_y 1 1 64 = Inr r"
    by (simp add: k lx)
  then obtain r where
    r: "train_and_predict (\<lambda>w. 1 / 20) example_data example_X example_y 1 1 64 = Inr r"
    by blast
  with t have "int (length (predictions r)) = max 0 (int (length example_X) - int ((4 * length example_X) div 5) - int 1)
     \<and> length (test_indices r) = length (predictions r)
     \<and> length (predict_percentages r) = length (predictions r)
     \<and> length (actual_percentages r) = length (predictions r)"
    by blast
  then have "length (predictions r) = 1 \<and> length (test_indices r) = 1
          \<and> length (predict_percentages r) = 1 \<and> length (actual_percentages r) = 1"
    by (simp add: k lx)
  with r h1 h2 show ?thesis by blast
qed

lemma create_sequences_short:
  assumes "length features \<le> n"
  shows "create_sequences features target n = Inr ([], [])"
  using assms by (simp add: create_sequences_def)

text \<open>
  C8 (as amended). When the train slice of the 80/20 split has at most \<open>n_steps\<close> rows, so
  that it yields no window, the trainer does not return a result: it raises \<open>ValueError\<close>
  or \<open>IndexError\<close>. It is \<open>ValueError\<close> (from fitting the scaler) when the train slice has
  no row, and \<open>IndexError\<close> (from \<open>X_train.shape[2]\<close>) when the train slice has a row, the
  target is aligned with the features and the batch size is positive.
\<close>

theorem no_train_window_raises:
  assumes "(4 * length X) div 5 \<le> n_steps"
  shows "(train_and_predict net data X y n_steps num_epochs batch_size = Inl ValueError
          \<or> train_and_predict net data X y n_steps num_epochs batch_size = Inl IndexError)
       \<and> ((4 * length X) div 5 = 0 \<longrightarrow>
            train_and_predict net data X y n_steps num_epochs batch_size = Inl ValueError)
       \<and> (0 < (4 * length X) div 5 \<and> length y = length X \<and> 0 < batch_size \<longrightarrow>
            train_and_predict net data X y n_steps num_epochs batch_size = Inl IndexError)"
proof -
  let ?k = "(4 * length X) div 5"
  let ?run = "train_and_predict net data X y n_steps num_epochs batch_size"
  have tr: "create_sequences (transform_X scs (take ?k X)) t n_steps = Inr ([], [])" for scs t
    by (rule create_sequences_short) (simp add: length_transform_X assms)
  have val: "create_sequences F t n_steps = Inl e \<Longrightarrow> e = IndexError" for F t e
  proof -
    have "create_sequences_loop F t n_steps is acc = Inl e \<Longrightarrow> e = IndexError" for "is" acc
      by (induction "is" arbitrary: acc) (simp_all split: if_splits)
    then show "create_sequences F t n_steps = Inl e \<Longrightarrow> e = IndexError"
      unfolding create_sequences_def by blast
  qed
  have a: "?run = Inl ValueError \<or> ?run = Inl IndexError"
    unfolding train_and_predict_def Let_def
    by (auto simp: tr fit_def fit_X_def split: sum.splits list.splits dest: val)
  have b: "?k = 0 \<longrightarrow> ?run = Inl ValueError"
    unfolding train_and_predict_def Let_def by (simp add: fit_def)
  have c: "0 < ?k \<and> length y = length X \<and> 0 < batch_size \<longrightarrow> ?run = Inl IndexError"
  proof
    assume h: "0 < ?k \<and> length y = length X \<and> 0 < batch_size"
    then have xpos: "0 < length X" by (cases "length X") simp_all
    have klt: "?k < length X" using xpos by arith
    obtain sc where sc: "fit (take ?k y) = Inr sc"
      using h klt by (cases "take ?k y") (auto simp: fit_def)
    obtain scs where scs: "fit_X (take ?k X) = Inr scs"
      using h klt by (cases "take ?k X") (auto simp: fit_X_def)
    have ne: "drop ?k y \<noteq> []" "drop ?k X \<noteq> []" using klt h by simp_all
    have va: "\<exists>p. create_sequences (transform_X scs (drop ?k X)) (map (transform sc) (drop ?k y))
                n_steps = Inr p"
    proof -
      have "\<forall>i \<in> set [0..<length (transform_X scs (drop ?k X)) - n_steps].
              i + n_steps < length (map (transform sc) (drop ?k y))"
        using h by (auto simp: length_transform_X)
      then show ?thesis
        unfolding create_sequences_def by (simp add: create_sequences_loop_ok)
    qed
    then obtain p where p: "create_sequences (transform_X scs (drop ?k X))
                              (map (transform sc) (drop ?k y)) n_steps = Inr p" by blast
    show "?run = Inl IndexError"
      unfolding train_and_predict_def Let_def
      using sc scs ne p h by (simp add: tr)
  qed
  show ?thesis using a b c by blast
qed


text \<open>The theorem at the empty feature frame, with the trainer's default parameters.\<close>

theorem no_train_window_raises_witness:
  "(4 * length ([] :: real list list)) div 5 \<le> 30
   \<and> train_and_predict (\<lambda>w. 0) [] [] [] 30 100 64 = Inl ValueError"
proof -
  have h: "(4 * length ([] :: real list list)) div 5 \<le> 30" by simp
  from no_train_window_raises [OF h, of "\<lambda>w. 0" "[]" "[]" 100 64]
  show ?thesis by simp
qed

text \<open>
  C8 as stated fails: with ten feature rows and the default \<open>n_steps = 30\<close> the train slice
  of eight rows yields no window, and the trainer raises \<open>IndexError\<close>.
\<close>

theorem no_train_window_counterexample:
  "train_and_predict (\<lambda>w. 1 / 20) example_data example_X example_y 30 100 64 = Inl IndexError"
  by code_simp

text \<open>
  C2 at a concrete table. The closes are \<open>100, 200 (eight times), 220, 264\<close> on the dates
  1 to 11 January 2024, the target is their close-to-close return with the first row
  dropped (what \<open>format_feature\<close> computes from the \<open>Close\<close> column), and the network predicts a scaled return of \<open>1/20\<close> (the target scaler is the
  identity here). The single record carries the date of row \<open>9\<close> (10 January) and the
  predicted price \<open>(1 + 1/20) * close[8] = 210\<close>, but its actual return is \<open>20\<close> percent,
  the return of row \<open>10\<close> (11 January), where the return at the record's own date is \<open>10\<close>
  percent.
\<close>

theorem actual_return_one_row_late:
  "train_and_predict (\<lambda>w. 1 / 20) example_data example_X example_y 1 1 64
     = Inr \<lparr>predictions = [210], test_indices = [(2024, 1, 10)],
            predict_percentages = [5], actual_percentages = [20]\<rparr>
   \<and> fst (example_data ! 9) = (2024, 1, 10)
   \<and> (1 + 1 / 20) * example_closes ! 8 = 210
   \<and> 100 * (example_closes ! 9 - example_closes ! 8) / example_closes ! 8 = 10
   \<and> 100 * (example_closes ! 10 - example_closes ! 9) / example_closes ! 9 = 20
   \<and> tl (pct_change (map Fin example_closes)) = map Fin example_y"
  by code_simp
section \<open>Series operations read only the past\<close>

text \<open>
  Each operation along the time axis commutes with taking a prefix: the first \<open>k\<close> cells
  of its result are its result on the first \<open>k\<close> cells of its argument.
\<close>

lemma length_shift1 [simp]: "length (shift1 xs) = length xs"
  by (simp add: shift1_def)



lemma length_ffill_from [simp]: "length (ffill_from l xs) = length xs"
  by (induction xs arbitrary: l) simp_all

lemma length_ffill [simp]: "length (ffill xs) = length xs"
  by (simp add: ffill_def)



lemma length_cumsum_from [simp]: "length (cumsum_from a xs) = length xs"
  by (induction xs arbitrary: a) simp_all

lemma length_cumsum [simp]: "length (cumsum xs) = length xs"
  by (simp add: cumsum_def)



lemma length_ewm_from [simp]: "length (ewm_from al w ow xs) = length xs"
  by (induction xs arbitrary: w ow) (simp_all add: Let_def)

lemma length_ewm_mean [simp]: "length (ewm_mean n xs) = length xs"
  by (simp add: ewm_mean_def)



lemma length_rolling_apply [simp]: "length (rolling_apply stat w xs) = length xs"
  by (simp add: rolling_apply_def)


lemma length_rolling_mean [simp]: "length (rolling_mean w xs) = length xs"
  by (simp add: rolling_mean_def)

lemma length_rolling_std [simp]: "length (rolling_std w xs) = length xs"
  by (simp add: rolling_std_def)



lemma length_series_ops [simp]:
  "length (series_add xs ys) = min (length xs) (length ys)"
  "length (series_sub xs ys) = min (length xs) (length ys)"
  "length (series_mul xs ys) = min (length xs) (length ys)"
  "length (series_div xs ys) = min (length xs) (length ys)"
  "length (series_abs xs) = length xs"
  "length (series_neg xs) = length xs"
  "length (clip_lower v xs) = length xs"
  "length (clip_upper v xs) = length xs"
  "length (mask_nan sel xs) = min (length sel) (length xs)"
  by (simp_all add: series_add_def series_sub_def series_mul_def series_div_def series_abs_def
        series_neg_def clip_lower_def clip_upper_def mask_nan_def)


lemma length_diff [simp]: "length (diff xs) = length xs"
  by (simp add: diff_def)


lemma length_pct_change [simp]: "length (pct_change xs) = length xs"
  by (simp add: pct_change_def Let_def)


lemma length_outlier_mask [simp]: "length (outlier_mask close) = length close"
  by (simp add: outlier_mask_def)



section \<open>Columns of a frame under the frame operations\<close>






lemma index_set_col [simp]: "index (set_col df n s) = index df"
  by (simp add: set_col_def)

lemma wf_set_col:
  "wf_frame df \<Longrightarrow> length s = length (index df) \<Longrightarrow> wf_frame (set_col df n s)"
  by (auto simp: wf_frame_def set_col_def split: if_splits)

lemma length_col: "wf_frame df \<Longrightarrow> has_col df m \<Longrightarrow> length (col df m) = length (index df)"
proof -
  assume wf: "wf_frame df" and h: "has_col df m"
  from h obtain s where s: "map_of (columns df) m = Some s"
    by (auto simp: has_col_def dest: weak_map_of_SomeI)
  then have "(m, s) \<in> set (columns df)" by (rule map_of_SomeD)
  with wf have "length s = length (index df)" by (auto simp: wf_frame_def)
  with s show ?thesis by (simp add: col_def)
qed


lemma has_col_ffill_frame [simp]: "has_col (ffill_frame df) m = has_col df m"
  by (simp add: has_col_def ffill_frame_def image_image)

lemma index_ffill_frame [simp]: "index (ffill_frame df) = index df"
  by (simp add: ffill_frame_def)

lemma wf_ffill_frame: "wf_frame df \<Longrightarrow> wf_frame (ffill_frame df)"
  by (auto simp: wf_frame_def ffill_frame_def)

lemma index_loc_set_nan [simp]: "index (loc_set_nan sel names df) = index df"
  unfolding loc_set_nan_def by (induction names arbitrary: df) simp_all




lemma wf_loc_set_nan:
  assumes "wf_frame df" "length sel = length (index df)"
  shows "wf_frame (loc_set_nan sel names df)"
  using assms unfolding loc_set_nan_def
proof (induction names arbitrary: df)
  case Nil
  then show ?case by simp
next
  case (Cons n names)
  have "wf_frame (set_col df n (if has_col df n then mask_nan sel (col df n)
                                else replicate (length (index df)) NaN))"
    using Cons.prems by (intro wf_set_col) (auto simp: length_col)
  then show ?case using Cons by simp
qed


lemma index_clean_outliers [simp]: "index (clean_outliers df) = index df"
  by (simp add: clean_outliers_def)


lemma wf_clean_outliers:
  assumes "wf_frame df" "has_col df ''Close''"
  shows "wf_frame (clean_outliers df)"
  using assms
  by (simp add: clean_outliers_def wf_ffill_frame wf_loc_set_nan length_col)










lemma index_stage [simp]:
  "index (add_time_features df) = index df"
  "index (add_moving_averages df) = index df"
  "index (add_oscillators df) = index df"
  "index (add_directional df) = index df"
  "index (add_previous_day df) = index df"
  by (simp_all add: add_time_features_def add_moving_averages_def add_oscillators_def
        add_directional_def add_previous_day_def Let_def)







section \<open>Properties of \<open>compute_indicators\<close>\<close>

text \<open>
  C7 (as amended). On a table that is empty or has no \<open>Close\<close> column
  \<open>compute_indicators\<close> raises no error: it returns the empty frame and leaves the table
  of the caller as it is. The caller \<open>process_all\<close> sees an empty result and reports "no
  data".
\<close>

theorem compute_indicators_no_data:
  assumes "df_empty df \<or> \<not> has_col df ''Close''"
  shows "compute_indicators df = (empty_frame, df)
       \<and> df_empty (fst (compute_indicators df))
       \<and> process_one df = No_data"
  using assms by (auto simp: compute_indicators_def process_one_def df_empty_def empty_frame_def)

text \<open>The theorem at the frame without rows and columns.\<close>

theorem compute_indicators_no_data_witness:
  "df_empty empty_frame
   \<and> compute_indicators empty_frame = (empty_frame, empty_frame)
   \<and> process_one empty_frame = No_data"
proof -
  have e: "df_empty empty_frame" by (simp add: df_empty_def empty_frame_def)
  then have h: "df_empty empty_frame \<or> \<not> has_col empty_frame ''Close''" by simp
  from compute_indicators_no_data [OF h] e show ?thesis by blast
qed

text \<open>
  C7 as stated fails: on a table of one row that has no \<open>Close\<close> column the function
  raises nothing, it returns the empty frame.
\<close>

theorem empty_table_returned_counterexample:
  "compute_indicators \<lparr>index = [(2024, 1, 1)], columns = [(''Open'', [Fin 1])]\<rparr>
     = (\<lparr>index = [], columns = []\<rparr>,
        \<lparr>index = [(2024, 1, 1)], columns = [(''Open'', [Fin 1])]\<rparr>)"
  by (simp add: compute_indicators_def has_col_def empty_frame_def)


















section \<open>Indicators read only earlier rows\<close>








lemma length_true_range [simp]:
  "length (true_range h l c) = min (length h) (min (length l) (length c))"
  by (auto simp: true_range_def Let_def)


lemma length_atr [simp]: "length (atr h l c) = min (length h) (min (length l) (length c))"
  by (simp add: atr_def)


lemma length_di [simp]:
  "length (plus_di_intermediate h l c) = min (length h) (min (length l) (length c))"
  "length (minus_di_intermediate h l c) = min (length h) (min (length l) (length c))"
  by (auto simp: plus_di_intermediate_def minus_di_intermediate_def Let_def)


lemma length_adx [simp]:
  "length (adx_intermediate h l c) = min (length h) (min (length l) (length c))"
  by (auto simp: adx_intermediate_def Let_def)





lemma obv_loop_extends:
  "\<exists>ys. obv_loop c v is acc = acc @ ys \<and> length ys = length is"
proof (induction "is" arbitrary: acc)
  case Nil
  then show ?case by simp
next
  case (Cons i rest)
  let ?acc = "if fgreater (c ! i) (c ! (i - 1)) then acc @ [fadd (last acc) (v ! i)]
              else if fless (c ! i) (c ! (i - 1)) then acc @ [fsub (last acc) (v ! i)]
              else acc @ [last acc]"
  from Cons.IH [of ?acc] obtain ys where
    ys: "obv_loop c v rest ?acc = ?acc @ ys" "length ys = length rest" by blast
  have "\<exists>x. ?acc = acc @ [x]" by auto
  then obtain x where x: "?acc = acc @ [x]" by blast
  have "obv_loop c v (i # rest) acc = acc @ (x # ys)"
    using ys(1) x by simp
  then show ?case using ys(2) by (intro exI [of _ "x # ys"]) simp
qed

lemma length_obv_loop [simp]: "length (obv_loop c v is acc) = length acc + length is"
  using obv_loop_extends [of c v "is" acc] by auto







section \<open>Rows kept by \<open>dropna\<close>\<close>





lemma has_col_dropna [simp]: "has_col (dropna df) m = has_col df m"
  by (simp add: has_col_def dropna_def Let_def image_image)











section \<open>No lookahead\<close>














section \<open>Properties of \<open>format_feature\<close>\<close>









end
